theory Spec2Isabelle
  imports Main
begin

section \<open>Outcomes of a Go call\<close>

text \<open>
  A Go function of package \<open>scrape\<close> either panics, returns a non-nil \<open>error\<close>,
  or returns a value with a nil error. The three are kept apart: a panic is not a
  returned error.
\<close>

datatype panic =
    NilPointerDereference
  | TypeAssertionFailed
  | RegexpMustCompile string
  | IndexOutOfRange

text \<open>
  The error values built in \<open>scrape.go\<close>: \<open>ErrNoParts\<close> is the package variable
  ("no pieces in the config"); the three \<open>fmt.Errorf\<close> errors of \<open>NewScraper\<close> are
  determined by the index \<open>i\<close> of the part they name; \<open>OtherError\<close> is an error value
  made elsewhere (by a library), known by its message.
\<close>

datatype error =
    ErrNoParts
  | ErrNoName nat
  | ErrDuplicateName nat
  | ErrNoSelector nat
  | OtherError string

datatype 'a result = Panic panic | Error error | Return 'a

fun bind :: "'a result \<Rightarrow> ('a \<Rightarrow> 'b result) \<Rightarrow> 'b result" where
  "bind (Panic k) f = Panic k"
| "bind (Error e) f = Error e"
| "bind (Return x) f = f x"

section \<open>Go values\<close>

text \<open>
  A value of type \<open>interface{}\<close>: nil, a string, a \<open>map[string]interface{}\<close>
  (\<open>None\<close> is the nil map, entries are looked up with \<open>map_of\<close>), or a value of
  any other dynamic type.
\<close>

datatype 'a val =
    VNil
  | VString string
  | VMap "(string \<times> 'a val) list option"
  | VOther 'a

text \<open>A Go map with string keys; \<open>None\<close> is the nil map.\<close>

type_synonym 'v gomap = "(string \<times> 'v) list option"

definition entries :: "'v gomap \<Rightarrow> (string \<rightharpoonup> 'v)" where
  "entries m = (case m of None \<Rightarrow> Map.empty | Some kvs \<Rightarrow> map_of kvs)"

text \<open>A Go slice where absence matters; \<open>None\<close> is the nil slice.\<close>

type_synonym 'a slice = "'a list option"

definition elems :: "'a slice \<Rightarrow> 'a list" where
  "elems s = (case s of None \<Rightarrow> [] | Some xs \<Rightarrow> xs)"

definition len :: "'a slice \<Rightarrow> nat" where
  "len s = length (elems s)"

definition append_slice :: "'a slice \<Rightarrow> 'a \<Rightarrow> 'a slice" where
  "append_slice s x = Some (elems s @ [x])"

section \<open>Results\<close>

text \<open>
  \<open>type Results struct { Visited map[string]error; Results [][]map[string]interface{} }\<close>.
  A block is a \<open>map[string]interface{}\<close>; an \<open>error\<close> value is nil (\<open>None\<close>) or
  an error.
\<close>

type_synonym 'a block = "'a val gomap"

record 'a Results =
  Visited :: "error option gomap"
  Results :: "'a block slice slice"

text \<open>
  \<open>First\<close>: \<open>r.Results[0]\<close> is indexed before anything is tested, so it panics
  when there is no page; then \<open>len(r.Results[0]) == 0\<close> returns nil, otherwise
  \<open>r.Results[0][0]\<close>.
\<close>

definition First :: "'a Results \<Rightarrow> 'a block result" where
  "First r =
     (case elems (Results r) of
        [] \<Rightarrow> Panic IndexOutOfRange
      | page # _ \<Rightarrow>
          (if len page = 0 then Return None else Return (elems page ! 0)))"

text \<open>
  \<open>AllBlocks\<close>: \<open>ret\<close> starts as the empty, non-nil slice literal; the two nested
  \<open>range\<close> loops append every block.
\<close>

fun AllBlocks_page :: "'a block slice \<Rightarrow> 'a block list \<Rightarrow> 'a block slice" where
  "AllBlocks_page ret [] = ret"
| "AllBlocks_page ret (block # page) = AllBlocks_page (append_slice ret block) page"

fun AllBlocks_pages :: "'a block slice \<Rightarrow> 'a block slice list \<Rightarrow> 'a block slice" where
  "AllBlocks_pages ret [] = ret"
| "AllBlocks_pages ret (page # pages) =
     AllBlocks_pages (AllBlocks_page ret (elems page)) pages"

definition AllBlocks :: "'a Results \<Rightarrow> 'a block slice" where
  "AllBlocks r = AllBlocks_pages (Some []) (elems (Results r))"

section \<open>The payload\<close>

text \<open>
  Modelled from the spec: the types \<open>Payload\<close>, \<open>Field\<close>, \<open>Extractor\<close> and
  \<open>paginator\<close> are declared outside \<open>scrape.go\<close>. Their fields are the ones
  \<open>NewScraper\<close> reads, with the types its uses force: \<open>Params\<close> is an
  \<open>interface{}\<close> (it is compared with nil and type-asserted), \<open>Paginator\<close>,
  \<open>PaginateResults\<close> and \<open>RandomizeFetchDelay\<close> are pointers (\<open>None\<close> is nil).
  \<open>FetchDelay\<close> is only copied, its type \<open>'d\<close> is left open.
\<close>

record 'a Extractor =
  Type :: string
  Params :: "'a val"

record 'a Field =
  Name :: string
  Selector :: string
  Extractor :: "'a Extractor"

record paginator =
  Selector :: string
  Attribute :: string
  MaxPages :: int

record ('a, 'd) Payload =
  Fields :: "'a Field list"
  Paginator :: "paginator option"
  Format :: string
  PaginateResults :: "bool option"
  FetchDelay :: 'd
  RandomizeFetchDelay :: "bool option"
  RetryTimes :: int

section \<open>The scraper\<close>

text \<open>
  The extractors of package \<open>extract\<close>, by the struct literals \<open>NewScraper\<close>
  writes: \<open>extract.Attr{Attr: "href"}\<close> is \<open>extract_Attr ''href''\<close>,
  \<open>&extract.Attr{}\<close> is \<open>extract_Attr []\<close>, and \<open>extract_Regex s\<close> is an
  \<open>extract.Regex\<close> whose \<open>Regex\<close> field is the pattern \<open>s\<close> compiled. Fields of
  these structs that \<open>NewScraper\<close> never names are not represented.
\<close>

datatype extractor =
    extract_Const
  | extract_Count
  | extract_Text
  | extract_Html
  | extract_OuterHtml
  | extract_Attr string
  | extract_Regex string

record Link =
  Text :: extractor
  Href :: extractor

record Image =
  Src :: extractor
  Alt :: extractor

text \<open>
  \<open>paginate.Paginator\<close> and \<open>DividePageFunc\<close> values, by the constructor that
  made them.
\<close>

datatype Paginator = dummyPaginator | BySelector string string

datatype DividePageFunc =
    DividePageBySelector string
  | DividePageByIntersection "string list"

record 'd ScrapeOptions =
  MaxPages :: int
  Format :: string
  PaginateResults :: bool
  FetchDelay :: 'd
  RandomizeFetchDelay :: bool
  RetryTimes :: int

text \<open>
  \<open>Part\<close> and \<open>Scraper\<close> refer to each other (\<open>Details *Scraper\<close>). The
  \<open>Extractor\<close> of a part is an interface value: \<open>None\<close> is the nil interface.
\<close>

datatype 'd Part =
  Part (Name: string) (Selector: string) (Extractor: "extractor option")
       (Details: "'d Scraper option")
and 'd Scraper =
  Scraper (Paginator: Paginator) (DividePage: DividePageFunc) (Parts: "'d Part list")
          (Opts: "'d ScrapeOptions")

section \<open>What NewScraper calls\<close>

text \<open>
  \<open>regexp.MustCompile\<close> and \<open>FillStruct\<close> are not in \<open>scrape.go\<close>; they are
  parameters. \<open>regexp_compiles s\<close> says whether \<open>regexp.Compile(s)\<close> succeeds.
  \<open>FillStruct\<close> writes the params into the struct it is handed and returns an error
  that \<open>NewScraper\<close> only logs: each \<open>FillStruct_*\<close> gives the struct after the
  call, for the three kinds of target \<open>NewScraper\<close> passes.
\<close>

record 'a env =
  regexp_compiles :: "string \<Rightarrow> bool"
  FillStruct_Link :: "'a val gomap \<Rightarrow> Link \<Rightarrow> Link"
  FillStruct_Image :: "'a val gomap \<Rightarrow> Image \<Rightarrow> Image"
  FillStruct_Extractor :: "'a val gomap \<Rightarrow> extractor option \<Rightarrow> extractor option"

section \<open>NewScraper\<close>

text \<open>
  Lines 168-171: \<open>params\<close> is a fresh empty map, replaced by the type assertion
  \<open>f.Extractor.Params.(map[string]interface{})\<close> when \<open>Params\<close> is not nil; the
  assertion panics on any other dynamic type.
\<close>

definition field_params :: "'a Field \<Rightarrow> 'a val gomap result" where
  "field_params f =
     (case Params (Field.Extractor f) of
        VNil \<Rightarrow> Return (Some [])
      | VMap m \<Rightarrow> Return m
      | VString s \<Rightarrow> Panic TypeAssertionFailed
      | VOther x \<Rightarrow> Panic TypeAssertionFailed)"

text \<open>\<open>params[k]\<close>: the zero value nil when the key is absent or the map is nil.\<close>

definition index :: "'a val gomap \<Rightarrow> string \<Rightarrow> 'a val" where
  "index params k = (case entries params k of None \<Rightarrow> VNil | Some v \<Rightarrow> v)"

text \<open>
  Lines 218-239, the inner switch of the default case: \<open>e\<close> stays the nil interface
  for an unknown type; for \<open>"regex"\<close>, \<open>regExp.(string)\<close> panics unless
  \<open>params["regexp"]\<close> is a string and \<open>regexp.MustCompile\<close> panics unless it compiles.
\<close>

definition new_extractor :: "'a env \<Rightarrow> string \<Rightarrow> 'a val gomap \<Rightarrow> extractor option result" where
  "new_extractor env eType params =
     (if eType = ''const'' then Return (Some extract_Const)
      else if eType = ''count'' then Return (Some extract_Count)
      else if eType = ''text'' then Return (Some extract_Text)
      else if eType = ''html'' then Return (Some extract_Html)
      else if eType = ''outerHtml'' then Return (Some extract_OuterHtml)
      else if eType = ''attr'' then Return (Some (extract_Attr []))
      else if eType = ''regex'' then
        (case index params ''regexp'' of
           VString s \<Rightarrow>
             (if regexp_compiles env s then Return (Some (extract_Regex s))
              else Panic (RegexpMustCompile s))
         | VNil \<Rightarrow> Panic TypeAssertionFailed
         | VMap m \<Rightarrow> Panic TypeAssertionFailed
         | VOther x \<Rightarrow> Panic TypeAssertionFailed)
      else Return None)"

text \<open>
  Lines 167-255, the body of the loop over \<open>p.Fields\<close>, on the pair of \<open>parts\<close>
  and \<open>selectors\<close> built so far. \<open>FillStruct\<close> is called when \<open>params != nil\<close>.
\<close>

definition add_field ::
  "'a env \<Rightarrow> 'd Part list \<times> string list \<Rightarrow> 'a Field \<Rightarrow> ('d Part list \<times> string list) result" where
  "add_field env acc f =
     bind (field_params f) (\<lambda>params.
       let parts = fst acc; selectors = snd acc; eType = Type (Field.Extractor f) in
       if eType = ''link'' then
         (let l0 = \<lparr>Text = extract_Text, Href = extract_Attr ''href''\<rparr>;
              l = (if params \<noteq> None then FillStruct_Link env params l0 else l0)
          in Return
               (parts @
                  [Part (Field.Name f @ ''_text'') (Field.Selector f) (Some (Text l)) None,
                   Part (Field.Name f @ ''_link'') (Field.Selector f) (Some (Href l)) None],
                selectors @ [Field.Selector f]))
       else if eType = ''image'' then
         (let i0 = \<lparr>Src = extract_Attr ''src'', Alt = extract_Attr ''alt''\<rparr>;
              i = (if params \<noteq> None then FillStruct_Image env params i0 else i0)
          in Return
               (parts @
                  [Part (Field.Name f @ ''_src'') (Field.Selector f) (Some (Src i)) None,
                   Part (Field.Name f @ ''_alt'') (Field.Selector f) (Some (Alt i)) None],
                selectors @ [Field.Selector f]))
       else
         bind (new_extractor env eType params) (\<lambda>e0.
           let e = (if params \<noteq> None then FillStruct_Extractor env params e0 else e0)
           in Return
                (parts @ [Part (Field.Name f) (Field.Selector f) e None],
                 selectors @ [Field.Selector f])))"

fun build_parts ::
  "'a env \<Rightarrow> 'd Part list \<times> string list \<Rightarrow> 'a Field list \<Rightarrow> ('d Part list \<times> string list) result" where
  "build_parts env acc [] = Return acc"
| "build_parts env acc (f # fs) = bind (add_field env acc f) (\<lambda>acc'. build_parts env acc' fs)"

text \<open>
  Lines 262-275, the loop over \<open>parts\<close> with its index \<open>i\<close> and the set
  \<open>seenNames\<close>; \<open>None\<close> when the loop ends without returning.
\<close>

fun validate :: "string set \<Rightarrow> nat \<Rightarrow> 'd Part list \<Rightarrow> error option" where
  "validate seenNames i [] = None"
| "validate seenNames i (part # rest) =
     (if length (Part.Name part) = 0 then Some (ErrNoName i)
      else if Part.Name part \<in> seenNames then Some (ErrDuplicateName i)
      else if length (Part.Selector part) = 0 then Some (ErrNoSelector i)
      else validate (insert (Part.Name part) seenNames) (i + 1) rest)"

text \<open>
  Lines 277-304. The struct literal reads \<open>p.Paginator.MaxPages\<close>,
  \<open>*p.PaginateResults\<close> and \<open>*p.RandomizeFetchDelay\<close> with no nil test: each
  is a nil pointer dereference when the pointer is nil.
\<close>

definition make_scraper ::
  "('a, 'd) Payload \<Rightarrow> 'd Part list \<Rightarrow> string list \<Rightarrow> 'd Scraper result" where
  "make_scraper p parts selectors =
     (let paginator =
            (case Payload.Paginator p of
               None \<Rightarrow> dummyPaginator
             | Some pg \<Rightarrow> BySelector (paginator.Selector pg) (Attribute pg));
          dividePageFunc =
            (if length selectors = 0 then DividePageBySelector ''body''
             else DividePageByIntersection selectors)
      in case Payload.Paginator p of
           None \<Rightarrow> Panic NilPointerDereference
         | Some pg \<Rightarrow>
             (case Payload.PaginateResults p of
                None \<Rightarrow> Panic NilPointerDereference
              | Some paginateResults \<Rightarrow>
                  (case Payload.RandomizeFetchDelay p of
                     None \<Rightarrow> Panic NilPointerDereference
                   | Some randomizeFetchDelay \<Rightarrow>
                       Return (Scraper paginator dividePageFunc parts
                         \<lparr>MaxPages = paginator.MaxPages pg,
                          Format = Payload.Format p,
                          PaginateResults = paginateResults,
                          FetchDelay = Payload.FetchDelay p,
                          RandomizeFetchDelay = randomizeFetchDelay,
                          RetryTimes = Payload.RetryTimes p\<rparr>))))"

definition NewScraper :: "'a env \<Rightarrow> ('a, 'd) Payload \<Rightarrow> 'd Scraper result" where
  "NewScraper env p =
     bind (build_parts env ([], []) (Fields p)) (\<lambda>acc.
       let parts = fst acc; selectors = snd acc in
       if length parts = 0 then Error ErrNoParts
       else (case validate {} 0 parts of
               Some err \<Rightarrow> Error err
             | None \<Rightarrow> make_scraper p parts selectors))"

section \<open>Tasks\<close>

text \<open>
  \<open>robotstxt.RobotsData\<close> is a type of another package; a task made by \<open>NewTask\<close>
  holds the nil pointer.
\<close>

typedecl RobotsData

record Session =
  Robots :: "RobotsData option"
  Cookies :: string

record ('a, 'd) Task =
  ID :: string
  Scraper :: "'d Scraper option"
  Session :: Session
  Status :: string
  Results :: "'a Results"

text \<open>
  Package \<open>ksuid\<close> is not in \<open>scrape.go\<close>; its three functions that the code calls
  on an identifier are parameters: \<open>id.String()\<close>, \<open>ksuid.Parse(s)\<close> (an error or an
  identifier) and \<open>id.Time()\<close> (here in seconds). The identifier \<open>ksuid.New()\<close>
  draws from the clock and the random source is an argument of \<open>NewTask\<close>.
\<close>

record 'k ksuid =
  ksuid_String :: "'k \<Rightarrow> string"
  ksuid_Parse :: "string \<Rightarrow> 'k result"
  ksuid_Time :: "'k \<Rightarrow> int"

text \<open>
  \<open>NewTask\<close> sets \<open>ID\<close> and \<open>Scraper\<close> only: the other fields of the literal are
  zero values (nil pointer, empty strings, nil map, nil slice).
\<close>

definition NewTask :: "'k ksuid \<Rightarrow> 'a env \<Rightarrow> 'k \<Rightarrow> ('a, 'd) Payload \<Rightarrow> ('b, 'd) Task result" where
  "NewTask lib env new_id p =
     bind (NewScraper env p) (\<lambda>scraper.
       Return \<lparr>ID = ksuid_String lib new_id,
               Scraper = Some scraper,
               Session = \<lparr>Robots = None, Cookies = []\<rparr>,
               Status = [],
               Results = \<lparr>Visited = None, Results = None\<rparr>\<rparr>)"

definition StartTime :: "'k ksuid \<Rightarrow> ('b, 'd) Task \<Rightarrow> int result" where
  "StartTime lib t = bind (ksuid_Parse lib (ID t)) (\<lambda>parsed. Return (ksuid_Time lib parsed))"

section \<open>Sample inputs\<close>

text \<open>
  Concrete arguments for the instances below. In \<open>sample_env\<close> the one pattern that
  does not compile is \<open>(\<close> (Go reports a missing closing parenthesis) and
  \<open>FillStruct\<close> leaves its target as it is.
\<close>

definition sample_compiles :: "string \<Rightarrow> bool" where
  "sample_compiles s = (s \<noteq> ''('')"

definition FillStruct_unchanged :: "unit val gomap \<Rightarrow> 'x \<Rightarrow> 'x" where
  "FillStruct_unchanged params x = x"

definition sample_env :: "unit env" where
  "sample_env =
     \<lparr>regexp_compiles = sample_compiles,
      FillStruct_Link = FillStruct_unchanged,
      FillStruct_Image = FillStruct_unchanged,
      FillStruct_Extractor = FillStruct_unchanged\<rparr>"

definition sample_field :: "string \<Rightarrow> string \<Rightarrow> string \<Rightarrow> unit val \<Rightarrow> unit Field" where
  "sample_field name selector type params =
     \<lparr>Field.Name = name, Field.Selector = selector,
      Field.Extractor = \<lparr>Type = type, Params = params\<rparr>\<rparr>"

definition sample_paginator :: paginator where
  "sample_paginator =
     \<lparr>paginator.Selector = ''.next'', Attribute = ''href'', paginator.MaxPages = 2\<rparr>"

definition sample_payload ::
  "unit Field list \<Rightarrow> paginator option \<Rightarrow> bool option \<Rightarrow> bool option \<Rightarrow> (unit, nat) Payload" where
  "sample_payload fs pg paginateResults randomizeFetchDelay =
     \<lparr>Fields = fs, Payload.Paginator = pg, Payload.Format = ''json'',
      Payload.PaginateResults = paginateResults, Payload.FetchDelay = 500,
      Payload.RandomizeFetchDelay = randomizeFetchDelay, Payload.RetryTimes = 3\<rparr>"

text \<open>
  A stand-in for package \<open>ksuid\<close>: an identifier is a 160-bit number whose top 32
  bits count the seconds since 1400000000, and its text is that number in 27 digits
  of base 62.
\<close>

definition base62_alphabet :: string where
  "base62_alphabet = ''0123456789ABCDEFGHIJKLMNOPQRSTUVWXYZabcdefghijklmnopqrstuvwxyz''"

fun base62_char :: "nat \<Rightarrow> string \<Rightarrow> char" where
  "base62_char d [] = CHR ''0''"
| "base62_char d (c # cs) = (if d = 0 then c else base62_char (d - 1) cs)"

fun base62_position :: "nat \<Rightarrow> char \<Rightarrow> string \<Rightarrow> nat option" where
  "base62_position i c [] = None"
| "base62_position i c (d # ds) = (if c = d then Some i else base62_position (i + 1) c ds)"

fun base62_encode :: "nat \<Rightarrow> nat \<Rightarrow> string" where
  "base62_encode n v =
     (if n = 0 then []
      else base62_encode (n - 1) (v div 62) @ [base62_char (v mod 62) base62_alphabet])"

declare base62_encode.simps [simp del]

fun base62_decode :: "nat \<Rightarrow> string \<Rightarrow> nat option" where
  "base62_decode acc [] = Some acc"
| "base62_decode acc (c # cs) =
     (case base62_position 0 c base62_alphabet of
        None \<Rightarrow> None
      | Some d \<Rightarrow> base62_decode (acc * 62 + d) cs)"

definition sample_Parse :: "string \<Rightarrow> nat result" where
  "sample_Parse s =
     (if length s \<noteq> 27 then Error (OtherError ''Valid encoded KSUIDs are 27 characters'')
      else (case base62_decode 0 s of
              None \<Rightarrow> Error (OtherError ''Valid encoded KSUIDs are base62'')
            | Some v \<Rightarrow>
                (if v < 2 ^ 160 then Return v
                 else Error (OtherError ''Valid encoded KSUIDs are bounded''))))"

definition sample_Time :: "nat \<Rightarrow> int" where
  "sample_Time v = int (v div 2 ^ 128) + 1400000000"

definition sample_ksuid :: "nat ksuid" where
  "sample_ksuid =
     \<lparr>ksuid_String = base62_encode 27, ksuid_Parse = sample_Parse, ksuid_Time = sample_Time\<rparr>"

definition sample_id :: nat where
  "sample_id = 36617121174329980561920228151092777577967556405"

section \<open>Properties of Results\<close>

lemma AllBlocks_page_eq:
  "AllBlocks_page (Some acc) page = Some (acc @ page)"
  by (induction page arbitrary: acc) (simp_all add: append_slice_def elems_def)

lemma AllBlocks_pages_eq:
  "AllBlocks_pages (Some acc) pages = Some (acc @ concat (map elems pages))"
  by (induction pages arbitrary: acc) (simp_all add: AllBlocks_page_eq)

text \<open>
  C7. \<open>AllBlocks\<close> returns a non-nil slice holding the blocks of all pages, pages in
  order and blocks in order within each page; on a Results with no page (a nil or an
  empty page slice) it returns the empty non-nil slice.
\<close>

theorem AllBlocks_concat:
  "AllBlocks r = Some (concat (map elems (elems (Results.Results r))))
   \<and> AllBlocks (r\<lparr>Results.Results := None\<rparr>) = Some []
   \<and> AllBlocks (r\<lparr>Results.Results := Some []\<rparr>) = Some []"
  by (simp add: AllBlocks_def AllBlocks_pages_eq elems_def)

text \<open>
  C2. On a Results with no page (a nil or an empty page slice) \<open>First\<close> panics with
  an index out of range: it does not return nil there. When there is a first page,
  \<open>First\<close> returns nil if that page has no block and its first block otherwise.
\<close>

theorem First_no_page_panics:
  "First (r\<lparr>Results.Results := None\<rparr>) = Panic IndexOutOfRange
   \<and> First (r\<lparr>Results.Results := Some []\<rparr>) = Panic IndexOutOfRange
   \<and> First (r\<lparr>Results.Results := Some (None # pages)\<rparr>) = Return None
   \<and> First (r\<lparr>Results.Results := Some (Some [] # pages)\<rparr>) = Return None
   \<and> First (r\<lparr>Results.Results := Some (Some (b # bs) # pages)\<rparr>) = Return b"
  by (simp add: First_def elems_def len_def)

section \<open>The loops of NewScraper\<close>

lemma add_field_not_Error: "add_field env acc f \<noteq> Error e"
  by (auto simp: add_field_def field_params_def new_extractor_def Let_def split: val.splits)

lemma add_field_Return:
  assumes "add_field env acc f = Return acc'"
  shows "snd acc' = snd acc @ [Field.Selector f]"
    and "\<exists>ps. ps \<noteq> [] \<and> fst acc' = fst acc @ ps"
  using assms
  by (auto simp: add_field_def field_params_def new_extractor_def Let_def split: val.splits if_splits)

lemma build_parts_Return:
  "build_parts env acc fs = Return acc' \<Longrightarrow>
     snd acc' = snd acc @ map Field.Selector fs \<and>
     (\<exists>ps. fst acc' = fst acc @ ps \<and> (ps = [] \<longleftrightarrow> fs = []))"
proof (induction fs arbitrary: acc)
  case Nil
  then show ?case by simp
next
  case (Cons f fs)
  then obtain acc1 where a: "add_field env acc f = Return acc1"
    and b: "build_parts env acc1 fs = Return acc'"
    by (cases "add_field env acc f") auto
  from add_field_Return[OF a] Cons.IH[OF b] show ?case by auto
qed

lemma build_parts_not_Error: "build_parts env acc fs \<noteq> Error e"
proof (induction fs arbitrary: acc)
  case Nil
  then show ?case by simp
next
  case (Cons f fs)
  then show ?case
    by (cases "add_field env acc f") (auto simp: add_field_not_Error)
qed

lemma validate_None:
  "validate seen i parts = None \<longleftrightarrow>
     (\<forall>part \<in> set parts. Part.Name part \<noteq> [] \<and> Part.Selector part \<noteq> [] \<and> Part.Name part \<notin> seen)
     \<and> distinct (map Part.Name parts)"
  by (induction parts arbitrary: seen i) (auto simp: image_iff)

lemma validate_Some_index:
  "validate seen i parts = Some e \<Longrightarrow>
     \<exists>k. i \<le> k \<and> k < i + length parts \<and>
       (e = ErrNoName k \<and> Part.Name (parts ! (k - i)) = []
        \<or> e = ErrDuplicateName k \<and> Part.Name (parts ! (k - i)) \<in> seen \<union> Part.Name ` set (take (k - i) parts)
        \<or> e = ErrNoSelector k \<and> Part.Selector (parts ! (k - i)) = [])"
proof (induction parts arbitrary: seen i)
  case Nil
  then show ?case by simp
next
  case (Cons part rest)
  show ?case
  proof (cases "validate seen i (part # rest) = validate (insert (Part.Name part) seen) (i + 1) rest")
    case True
    with Cons.prems have "validate (insert (Part.Name part) seen) (i + 1) rest = Some e"
      by simp
    from Cons.IH[OF this] obtain k where k: "i + 1 \<le> k" "k < i + 1 + length rest"
      and d: "e = ErrNoName k \<and> Part.Name (rest ! (k - (i + 1))) = []
        \<or> e = ErrDuplicateName k \<and> Part.Name (rest ! (k - (i + 1))) \<in> insert (Part.Name part) seen \<union> Part.Name ` set (take (k - (i + 1)) rest)
        \<or> e = ErrNoSelector k \<and> Part.Selector (rest ! (k - (i + 1))) = []"
      by blast
    from k obtain j where j: "k - i = Suc j" "k - (i + 1) = j"
      by (cases "k - i") auto
    from k d j show ?thesis
      by (intro exI[of _ k]) auto
  next
    case False
    with Cons.prems show ?thesis
      by (intro exI[of _ i]) (auto split: if_splits)
  qed
qed

lemma validate_Some_prefix:
  "validate seen i parts = Some e \<Longrightarrow>
     \<exists>k. i \<le> k \<and> k < i + length parts \<and>
       (e = ErrNoName k \<or> e = ErrDuplicateName k \<or> e = ErrNoSelector k) \<and>
       validate seen i (take (k - i) parts) = None"
proof (induction parts arbitrary: seen i)
  case Nil
  then show ?case by simp
next
  case (Cons part rest)
  show ?case
  proof (cases "Part.Name part = [] \<or> Part.Name part \<in> seen \<or> Part.Selector part = []")
    case True
    with Cons.prems show ?thesis
      by (intro exI[of _ i]) (auto split: if_splits)
  next
    case False
    with Cons.prems have "validate (insert (Part.Name part) seen) (i + 1) rest = Some e"
      by simp
    from Cons.IH[OF this] obtain k where k: "i + 1 \<le> k" "k < i + 1 + length rest"
      and e: "e = ErrNoName k \<or> e = ErrDuplicateName k \<or> e = ErrNoSelector k"
      and v: "validate (insert (Part.Name part) seen) (i + 1) (take (k - (i + 1)) rest) = None"
      by blast
    from k obtain j where j: "k - i = Suc j" "k - (i + 1) = j"
      by (cases "k - i") auto
    from False v j have "validate seen i (take (k - i) (part # rest)) = None"
      by simp
    with k e show ?thesis
      by (intro exI[of _ k]) auto
  qed
qed

section \<open>The outcomes of NewScraper\<close>

lemmas sample_defs =
  sample_compiles_def FillStruct_unchanged_def sample_env_def sample_field_def
  sample_paginator_def sample_payload_def

lemmas NewScraper_defs =
  NewScraper_def make_scraper_def add_field_def field_params_def new_extractor_def
  index_def entries_def

lemma NewScraper_Return:
  assumes "NewScraper env p = Return (s :: 'd Scraper)"
  shows "\<exists>parts selectors.
           build_parts env ([], []) (Fields p) = Return (parts, selectors) \<and> parts \<noteq> [] \<and>
           validate {} 0 parts = None \<and> make_scraper p parts selectors = Return s"
proof (cases "build_parts env ([] :: 'd Part list, []) (Fields p)")
  case (Panic k)
  with assms show ?thesis by (simp add: NewScraper_def)
next
  case (Error e)
  with assms show ?thesis by (simp add: NewScraper_def)
next
  case (Return acc)
  with assms show ?thesis
    by (cases acc) (auto simp: NewScraper_def Let_def split: if_splits option.splits)
qed

lemma NewScraper_built:
  assumes "build_parts env ([], []) (Fields p) = Return (parts, selectors)"
  shows "NewScraper env p =
           (if parts = [] then Error ErrNoParts
            else case validate {} 0 parts of
                   Some err \<Rightarrow> Error err
                 | None \<Rightarrow> make_scraper p parts selectors)"
  using assms by (simp add: NewScraper_def split: option.splits)

lemma make_scraper_Return:
  assumes "make_scraper p parts selectors = Return s"
  shows "\<exists>pg pr rf. Payload.Paginator p = Some pg \<and> Payload.PaginateResults p = Some pr \<and>
           Payload.RandomizeFetchDelay p = Some rf \<and> Parts s = parts \<and>
           Scraper.Paginator s = BySelector (paginator.Selector pg) (Attribute pg) \<and>
           DividePage s = (if selectors = [] then DividePageBySelector ''body''
                           else DividePageByIntersection selectors)"
  using assms by (auto simp: make_scraper_def Let_def split: option.splits)

lemma make_scraper_not_Error: "make_scraper p parts selectors \<noteq> Error e"
  by (simp add: make_scraper_def Let_def split: option.splits)

lemma make_scraper_nil:
  assumes "Payload.Paginator p = None \<or> Payload.PaginateResults p = None \<or>
           Payload.RandomizeFetchDelay p = None"
  shows "make_scraper p parts selectors = Panic NilPointerDereference"
  using assms by (auto simp: make_scraper_def Let_def split: option.splits)

lemma make_scraper_present:
  assumes "Payload.Paginator p \<noteq> None" and "Payload.PaginateResults p \<noteq> None"
    and "Payload.RandomizeFetchDelay p \<noteq> None"
  shows "\<exists>s. make_scraper p parts selectors = Return s \<and> Parts s = parts"
  using assms by (auto simp: make_scraper_def Let_def split: option.splits)

lemma NewScraper_Error:
  assumes "build_parts env ([], []) (Fields (p :: ('a, 'd) Payload)) =
             Return (parts :: 'd Part list, selectors)"
  shows "NewScraper env p = Error e \<longleftrightarrow>
           (parts = [] \<and> e = ErrNoParts) \<or> (parts \<noteq> [] \<and> validate {} 0 parts = Some e)"
  by (auto simp: NewScraper_built[OF assms] make_scraper_not_Error split: option.splits)

lemma validate_Some_first:
  assumes "validate {} 0 parts = Some e"
  shows "\<exists>k < length parts.
           (e = ErrNoName k \<and> Part.Name (parts ! k) = []
            \<or> e = ErrDuplicateName k \<and> (\<exists>j < k. Part.Name (parts ! j) = Part.Name (parts ! k))
            \<or> e = ErrNoSelector k \<and> Part.Selector (parts ! k) = [])"
proof -
  from validate_Some_index[OF assms] obtain k where k: "k < length parts"
    and d: "e = ErrNoName k \<and> Part.Name (parts ! k) = []
        \<or> e = ErrDuplicateName k \<and> Part.Name (parts ! k) \<in> Part.Name ` set (take k parts)
        \<or> e = ErrNoSelector k \<and> Part.Selector (parts ! k) = []"
    by auto
  have "\<exists>j < k. Part.Name (parts ! j) = Part.Name (parts ! k)"
    if "Part.Name (parts ! k) \<in> Part.Name ` set (take k parts)"
  proof -
    from that obtain x where x: "x \<in> set (take k parts)" "Part.Name x = Part.Name (parts ! k)"
      by auto
    from x(1) obtain j where "j < length (take k parts)" "take k parts ! j = x"
      by (auto simp: in_set_conv_nth)
    with k x(2) show ?thesis by (intro exI[of _ j]) auto
  qed
  with k d show ?thesis by blast
qed

lemma validate_Some_earlier:
  assumes "validate {} 0 parts = Some e"
  shows "\<exists>k < length parts.
           (e = ErrNoName k \<or> e = ErrDuplicateName k \<or> e = ErrNoSelector k) \<and>
           (\<forall>part \<in> set (take k parts). Part.Name part \<noteq> [] \<and> Part.Selector part \<noteq> []) \<and>
           distinct (map Part.Name (take k parts))"
proof -
  from validate_Some_prefix[OF assms] obtain k where "k < length parts"
    and "e = ErrNoName k \<or> e = ErrDuplicateName k \<or> e = ErrNoSelector k"
    and "validate {} 0 (take k parts) = None"
    by auto
  then show ?thesis
    by (intro exI[of _ k]) (simp add: validate_None)
qed

lemma validate_append:
  "validate seen i xs = None \<Longrightarrow>
     validate seen i (xs @ ys) = validate (seen \<union> Part.Name ` set xs) (i + length xs) ys"
proof (induction xs arbitrary: seen i)
  case Nil
  then show ?case by simp
next
  case (Cons x xs)
  from Cons.prems have ok: "Part.Name x \<noteq> []" "Part.Name x \<notin> seen" "Part.Selector x \<noteq> []"
    and rest: "validate (insert (Part.Name x) seen) (i + 1) xs = None"
    by (auto split: if_splits)
  have "insert (Part.Name x) seen \<union> Part.Name ` set xs = seen \<union> Part.Name ` set (x # xs)"
    by auto
  with Cons.IH[OF rest, of] ok show ?case by simp
qed

lemma validate_first_fault:
  assumes "k < length parts" and "validate {} 0 (take k parts) = None"
  shows "validate {} 0 parts =
           (if Part.Name (parts ! k) = [] then Some (ErrNoName k)
            else if Part.Name (parts ! k) \<in> Part.Name ` set (take k parts)
              then Some (ErrDuplicateName k)
            else if Part.Selector (parts ! k) = [] then Some (ErrNoSelector k)
            else validate (insert (Part.Name (parts ! k)) (Part.Name ` set (take k parts)))
                   (k + 1) (drop (Suc k) parts))"
proof -
  have "parts = take k parts @ parts ! k # drop (Suc k) parts"
    using assms(1) by (simp add: id_take_nth_drop)
  then have "validate {} 0 parts = validate {} 0 (take k parts @ parts ! k # drop (Suc k) parts)"
    by simp
  also have "\<dots> = validate (Part.Name ` set (take k parts)) k (parts ! k # drop (Suc k) parts)"
    using validate_append[OF assms(2), of "parts ! k # drop (Suc k) parts"] assms(1) by simp
  finally show ?thesis by simp
qed

lemma in_take_names:
  assumes "k < length parts"
  shows "Part.Name (parts ! k) \<in> Part.Name ` set (take k parts) \<longleftrightarrow>
           (\<exists>j < k. Part.Name (parts ! j) = Part.Name (parts ! k))"
proof
  assume "Part.Name (parts ! k) \<in> Part.Name ` set (take k parts)"
  then obtain x where x: "x \<in> set (take k parts)" "Part.Name x = Part.Name (parts ! k)"
    by auto
  from x(1) obtain j where "j < length (take k parts)" "take k parts ! j = x"
    by (auto simp: in_set_conv_nth)
  with assms x(2) show "\<exists>j < k. Part.Name (parts ! j) = Part.Name (parts ! k)"
    by (intro exI[of _ j]) auto
next
  assume "\<exists>j < k. Part.Name (parts ! j) = Part.Name (parts ! k)"
  then obtain j where j: "j < k" "Part.Name (parts ! j) = Part.Name (parts ! k)" by blast
  with assms have "parts ! j \<in> set (take k parts)"
    by (auto simp: in_set_conv_nth intro!: exI[of _ j])
  with j(2) show "Part.Name (parts ! k) \<in> Part.Name ` set (take k parts)"
    by (metis imageI)
qed

lemma NewScraper_first_fault:
  fixes p :: "('a, 'd) Payload" and parts :: "'d Part list"
  assumes b: "build_parts env ([], []) (Fields p) = Return (parts, selectors)"
    and k: "k < length parts"
    and pre: "\<forall>part \<in> set (take k parts). Part.Name part \<noteq> [] \<and> Part.Selector part \<noteq> []"
    and dist: "distinct (map Part.Name (take k parts))"
  shows "(Part.Name (parts ! k) = [] \<longrightarrow> NewScraper env p = Error (ErrNoName k))
    \<and> (Part.Name (parts ! k) \<noteq> [] \<and> (\<exists>j < k. Part.Name (parts ! j) = Part.Name (parts ! k))
        \<longrightarrow> NewScraper env p = Error (ErrDuplicateName k))
    \<and> (Part.Name (parts ! k) \<noteq> [] \<and> (\<forall>j < k. Part.Name (parts ! j) \<noteq> Part.Name (parts ! k))
        \<and> Part.Selector (parts ! k) = []
        \<longrightarrow> NewScraper env p = Error (ErrNoSelector k))"
proof -
  from pre dist have v: "validate {} 0 (take k parts) = None"
    by (simp add: validate_None)
  from k have ne: "parts \<noteq> []" by auto
  note F = validate_first_fault[OF k v]
  note I = in_take_names[OF k]
  from ne show ?thesis
    unfolding NewScraper_built[OF b] F I by auto
qed

lemma NewScraper_Error_cases:
  fixes p :: "('a, 'd) Payload"
  assumes "NewScraper env p = Error e"
  shows "\<exists>(parts :: 'd Part list) selectors.
           build_parts env ([], []) (Fields p) = Return (parts, selectors) \<and>
           (parts = [] \<and> e = ErrNoParts \<or> parts \<noteq> [] \<and> validate {} 0 parts = Some e)"
proof (cases "build_parts env ([] :: 'd Part list, []) (Fields p)")
  case (Panic k)
  with assms show ?thesis by (simp add: NewScraper_def)
next
  case (Error x)
  then show ?thesis by (simp add: build_parts_not_Error)
next
  case (Return acc)
  obtain parts selectors where acc: "acc = (parts, selectors)" by (cases acc)
  with Return have b: "build_parts env ([], []) (Fields p) = Return (parts, selectors)" by simp
  from assms NewScraper_Error[OF b] b show ?thesis by blast
qed

lemma add_field_regex_Panic:
  assumes "Type (Field.Extractor f) = ''regex''"
    and "Params (Field.Extractor f) = VMap m"
    and "index m ''regexp'' = VString s"
    and "\<not> regexp_compiles env s"
  shows "add_field env acc f = Panic (RegexpMustCompile s)"
  using assms by (simp add: add_field_def field_params_def new_extractor_def)

lemma build_parts_Panic:
  assumes "f \<in> set fs"
    and "\<And>acc :: 'd Part list \<times> string list. \<exists>k. add_field env acc f = Panic k"
  shows "\<exists>k. build_parts env (acc :: 'd Part list \<times> string list) fs = Panic k"
  using assms(1)
proof (induction fs arbitrary: acc)
  case Nil
  then show ?case by simp
next
  case (Cons g fs)
  show ?case
  proof (cases "add_field env acc g")
    case (Panic k)
    then show ?thesis by simp
  next
    case (Error e)
    then show ?thesis by (simp add: add_field_not_Error)
  next
    case (Return acc1)
    have "g \<noteq> f"
    proof
      assume "g = f"
      with Return assms(2)[of acc] show False by auto
    qed
    with Cons.prems have "f \<in> set fs" by simp
    from Cons.IH[OF this] Return show ?thesis by simp
  qed
qed

section \<open>A payload without a paginator\<close>

text \<open>
  C1. With a nil \<open>Paginator\<close> in the payload \<open>NewScraper\<close> never returns a scraper:
  the no-op paginator is chosen, but the options literal then reads
  \<open>p.Paginator.MaxPages\<close>, so a payload whose parts pass validation ends in a nil
  pointer dereference.
\<close>

theorem NewScraper_nil_Paginator:
  fixes p :: "('a, 'd) Payload" and parts :: "'d Part list"
  assumes "Payload.Paginator p = None"
  shows "NewScraper env p \<noteq> Return s
         \<and> (build_parts env ([], []) (Fields p) = Return (parts, selectors) \<and> parts \<noteq> []
             \<and> validate {} 0 parts = None
             \<longrightarrow> NewScraper env p = Panic NilPointerDereference)"
proof -
  have "NewScraper env p \<noteq> Return s"
  proof
    assume "NewScraper env p = Return s"
    from NewScraper_Return[OF this] obtain parts' selectors'
      where "make_scraper p parts' selectors' = Return s" by blast
    from make_scraper_Return[OF this] assms show False by auto
  qed
  moreover have "NewScraper env p = Panic NilPointerDereference"
    if "build_parts env ([], []) (Fields p) = Return (parts, selectors)"
      and "parts \<noteq> []" and "validate {} 0 parts = None"
    using that assms by (simp add: NewScraper_built[OF that(1)] make_scraper_nil)
  ultimately show ?thesis by blast
qed

theorem NewScraper_nil_Paginator_witness:
  "Payload.Paginator (sample_payload [sample_field ''title'' ''.title'' ''text'' VNil] None (Some True) (Some False)) = None
   \<and> NewScraper sample_env
         (sample_payload [sample_field ''title'' ''.title'' ''text'' VNil] None (Some True) (Some False))
       = Panic NilPointerDereference
   \<and> (\<forall>s. NewScraper sample_env
         (sample_payload [sample_field ''title'' ''.title'' ''text'' VNil] None (Some True) (Some False))
       \<noteq> Return s)"
proof -
  have h: "Payload.Paginator (sample_payload [sample_field ''title'' ''.title'' ''text'' VNil] None (Some True) (Some False)) = None"
    by (simp add: sample_defs)
  have e: "NewScraper sample_env
         (sample_payload [sample_field ''title'' ''.title'' ''text'' VNil] None (Some True) (Some False))
       = Panic NilPointerDereference"
    by (simp add: sample_defs NewScraper_defs)
  from h e NewScraper_nil_Paginator[OF h, where env = sample_env] show ?thesis by blast
qed

section \<open>A pattern that does not compile\<close>

text \<open>
  C3. A payload holding a field of type \<open>regex\<close> whose \<open>regexp\<close> parameter is a
  string that does not compile makes \<open>NewScraper\<close> panic (\<open>regexp.MustCompile\<close>,
  or an earlier field's panic): no error is returned.
\<close>

theorem NewScraper_invalid_regex_panics:
  assumes "f \<in> set (Fields p)"
    and "Type (Field.Extractor f) = ''regex''"
    and "Params (Field.Extractor f) = VMap m"
    and "index m ''regexp'' = VString s"
    and "\<not> regexp_compiles env s"
  shows "\<exists>k. (NewScraper env p :: 'd Scraper result) = Panic k"
proof -
  have "\<And>acc :: 'd Part list \<times> string list. \<exists>k. add_field env acc f = Panic k"
    using add_field_regex_Panic[OF assms(2-5)] by blast
  from build_parts_Panic[OF assms(1) this]
  obtain k where "build_parts env ([] :: 'd Part list, []) (Fields p) = Panic k" by blast
  then show ?thesis by (simp add: NewScraper_def)
qed

theorem NewScraper_invalid_regex_panics_witness:
  "sample_field ''price'' ''.price'' ''regex'' (VMap (Some [(''regexp'', VString ''('')]))
     \<in> set (Fields (sample_payload
           [sample_field ''title'' ''.title'' ''text'' VNil,
            sample_field ''price'' ''.price'' ''regex'' (VMap (Some [(''regexp'', VString ''('')]))]
           (Some sample_paginator) (Some True) (Some False)))
   \<and> \<not> regexp_compiles sample_env ''(''
   \<and> (\<exists>k. NewScraper sample_env
         (sample_payload
           [sample_field ''title'' ''.title'' ''text'' VNil,
            sample_field ''price'' ''.price'' ''regex'' (VMap (Some [(''regexp'', VString ''('')]))]
           (Some sample_paginator) (Some True) (Some False)) = Panic k)
   \<and> NewScraper sample_env
         (sample_payload
           [sample_field ''title'' ''.title'' ''text'' VNil,
            sample_field ''price'' ''.price'' ''regex'' (VMap (Some [(''regexp'', VString ''('')]))]
           (Some sample_paginator) (Some True) (Some False)) = Panic (RegexpMustCompile ''('')"
proof -
  let ?f = "sample_field ''price'' ''.price'' ''regex'' (VMap (Some [(''regexp'', VString ''('')]))"
  let ?p = "sample_payload [sample_field ''title'' ''.title'' ''text'' VNil, ?f]
              (Some sample_paginator) (Some True) (Some False)"
  have h1: "?f \<in> set (Fields ?p)" by (simp add: sample_payload_def)
  have h2: "Type (Field.Extractor ?f) = ''regex''" by (simp add: sample_field_def)
  have h3: "Params (Field.Extractor ?f) = VMap (Some [(''regexp'', VString ''('')])"
    by (simp add: sample_field_def)
  have h4: "index (Some [(''regexp'', VString ''('')]) ''regexp'' = (VString ''('' :: unit val)"
    by (simp add: index_def entries_def)
  have h5: "\<not> regexp_compiles sample_env ''(''" by (simp add: sample_env_def sample_compiles_def)
  have e: "NewScraper sample_env ?p = Panic (RegexpMustCompile ''('')"
    by (simp add: sample_defs NewScraper_defs)
  from NewScraper_invalid_regex_panics[OF h1 h2 h3 h4 h5] h1 h5 e show ?thesis by blast
qed

section \<open>Validation\<close>

text \<open>
  C4. Once the parts are built, \<open>NewScraper\<close> returns \<open>ErrNoParts\<close> when there is
  no part; it returns an error exactly when there is no part, or a part has an empty
  Name or an empty Selector, or two parts share a Name; the error names the first part
  at fault in the order of the loop (an empty Name, then a Name seen before, then an
  empty Selector). When the parts pass these checks and the payload's Paginator,
  PaginateResults and RandomizeFetchDelay are all present, it returns a Scraper
  holding these parts and no error.
\<close>

theorem NewScraper_validation:
  assumes "build_parts env ([], []) (Fields (p :: ('a, 'd) Payload)) =
             Return (parts :: 'd Part list, selectors)"
  shows "(parts = [] \<longrightarrow> NewScraper env p = Error ErrNoParts)
    \<and> ((\<exists>e. NewScraper env p = Error e) \<longleftrightarrow>
         parts = [] \<or> (\<exists>part \<in> set parts. Part.Name part = [] \<or> Part.Selector part = [])
         \<or> \<not> distinct (map Part.Name parts))
    \<and> (\<forall>k < length parts.
          (\<forall>part \<in> set (take k parts). Part.Name part \<noteq> [] \<and> Part.Selector part \<noteq> [])
          \<and> distinct (map Part.Name (take k parts))
          \<longrightarrow> (Part.Name (parts ! k) = [] \<longrightarrow> NewScraper env p = Error (ErrNoName k))
            \<and> (Part.Name (parts ! k) \<noteq> []
                \<and> (\<exists>j < k. Part.Name (parts ! j) = Part.Name (parts ! k))
                \<longrightarrow> NewScraper env p = Error (ErrDuplicateName k))
            \<and> (Part.Name (parts ! k) \<noteq> []
                \<and> (\<forall>j < k. Part.Name (parts ! j) \<noteq> Part.Name (parts ! k))
                \<and> Part.Selector (parts ! k) = []
                \<longrightarrow> NewScraper env p = Error (ErrNoSelector k)))
    \<and> (\<forall>i. NewScraper env p = Error (ErrNoName i) \<longrightarrow>
          i < length parts \<and> Part.Name (parts ! i) = [])
    \<and> (\<forall>i. NewScraper env p = Error (ErrDuplicateName i) \<longrightarrow>
          i < length parts \<and> (\<exists>j < i. Part.Name (parts ! j) = Part.Name (parts ! i)))
    \<and> (\<forall>i. NewScraper env p = Error (ErrNoSelector i) \<longrightarrow>
          i < length parts \<and> Part.Selector (parts ! i) = [])
    \<and> (\<forall>e. NewScraper env p = Error e \<and> e \<noteq> ErrNoParts \<longrightarrow>
          (\<exists>k < length parts.
             (e = ErrNoName k \<or> e = ErrDuplicateName k \<or> e = ErrNoSelector k) \<and>
             (\<forall>part \<in> set (take k parts). Part.Name part \<noteq> [] \<and> Part.Selector part \<noteq> []) \<and>
             distinct (map Part.Name (take k parts))))
    \<and> (parts \<noteq> [] \<and> (\<forall>part \<in> set parts. Part.Name part \<noteq> [] \<and> Part.Selector part \<noteq> [])
        \<and> distinct (map Part.Name parts) \<and> Payload.Paginator p \<noteq> None
        \<and> Payload.PaginateResults p \<noteq> None \<and> Payload.RandomizeFetchDelay p \<noteq> None
        \<longrightarrow> (\<exists>s. NewScraper env p = Return s \<and> Parts s = parts))"
proof -
  have c8: "\<forall>k < length parts.
          (\<forall>part \<in> set (take k parts). Part.Name part \<noteq> [] \<and> Part.Selector part \<noteq> [])
          \<and> distinct (map Part.Name (take k parts))
          \<longrightarrow> (Part.Name (parts ! k) = [] \<longrightarrow> NewScraper env p = Error (ErrNoName k))
            \<and> (Part.Name (parts ! k) \<noteq> []
                \<and> (\<exists>j < k. Part.Name (parts ! j) = Part.Name (parts ! k))
                \<longrightarrow> NewScraper env p = Error (ErrDuplicateName k))
            \<and> (Part.Name (parts ! k) \<noteq> []
                \<and> (\<forall>j < k. Part.Name (parts ! j) \<noteq> Part.Name (parts ! k))
                \<and> Part.Selector (parts ! k) = []
                \<longrightarrow> NewScraper env p = Error (ErrNoSelector k))"
    using NewScraper_first_fault[OF assms] by blast
  note E = NewScraper_Error[OF assms]
  have c1: "parts = [] \<longrightarrow> NewScraper env p = Error ErrNoParts"
    by (simp add: E)
  have "(\<exists>e. validate {} 0 parts = Some e) \<longleftrightarrow>
          (\<exists>part \<in> set parts. Part.Name part = [] \<or> Part.Selector part = [])
          \<or> \<not> distinct (map Part.Name parts)"
    using validate_None[of "{}" 0 parts] by auto
  then have c2: "(\<exists>e. NewScraper env p = Error e) \<longleftrightarrow>
         parts = [] \<or> (\<exists>part \<in> set parts. Part.Name part = [] \<or> Part.Selector part = [])
         \<or> \<not> distinct (map Part.Name parts)"
    unfolding E by blast
  have c3: "\<forall>i. NewScraper env p = Error (ErrNoName i) \<longrightarrow>
          i < length parts \<and> Part.Name (parts ! i) = []"
    unfolding E by (auto dest: validate_Some_first)
  have c4: "\<forall>i. NewScraper env p = Error (ErrDuplicateName i) \<longrightarrow>
          i < length parts \<and> (\<exists>j < i. Part.Name (parts ! j) = Part.Name (parts ! i))"
    unfolding E by (auto dest: validate_Some_first)
  have c5: "\<forall>i. NewScraper env p = Error (ErrNoSelector i) \<longrightarrow>
          i < length parts \<and> Part.Selector (parts ! i) = []"
    unfolding E by (auto dest: validate_Some_first)
  have c6: "parts \<noteq> [] \<and> (\<forall>part \<in> set parts. Part.Name part \<noteq> [] \<and> Part.Selector part \<noteq> [])
        \<and> distinct (map Part.Name parts) \<and> Payload.Paginator p \<noteq> None
        \<and> Payload.PaginateResults p \<noteq> None \<and> Payload.RandomizeFetchDelay p \<noteq> None
        \<longrightarrow> (\<exists>s. NewScraper env p = Return s \<and> Parts s = parts)"
  proof
    assume a: "parts \<noteq> [] \<and> (\<forall>part \<in> set parts. Part.Name part \<noteq> [] \<and> Part.Selector part \<noteq> [])
        \<and> distinct (map Part.Name parts) \<and> Payload.Paginator p \<noteq> None
        \<and> Payload.PaginateResults p \<noteq> None \<and> Payload.RandomizeFetchDelay p \<noteq> None"
    then have "validate {} 0 parts = None"
      by (simp add: validate_None)
    with a have "NewScraper env p = make_scraper p parts selectors"
      by (simp add: NewScraper_built[OF assms])
    with a make_scraper_present[of p parts selectors] show "\<exists>s. NewScraper env p = Return s \<and> Parts s = parts"
      by auto
  qed
  have c7: "\<forall>e. NewScraper env p = Error e \<and> e \<noteq> ErrNoParts \<longrightarrow>
          (\<exists>k < length parts.
             (e = ErrNoName k \<or> e = ErrDuplicateName k \<or> e = ErrNoSelector k) \<and>
             (\<forall>part \<in> set (take k parts). Part.Name part \<noteq> [] \<and> Part.Selector part \<noteq> []) \<and>
             distinct (map Part.Name (take k parts)))"
    unfolding E by (auto dest: validate_Some_earlier)
  show ?thesis
    by (intro conjI) (fact c1, fact c2, fact c8, fact c3, fact c4, fact c5, fact c7, fact c6)
qed

theorem NewScraper_valid_parts_panics:
  "build_parts sample_env ([], [])
     (Fields (sample_payload [sample_field ''title'' ''.title'' ''text'' VNil]
        (Some sample_paginator) None (Some False)))
     = Return ([Part ''title'' ''.title'' (Some extract_Text) None :: nat Part], [''.title''])
   \<and> validate {} 0 [Part ''title'' ''.title'' (Some extract_Text) None :: nat Part] = None
   \<and> NewScraper sample_env
        (sample_payload [sample_field ''title'' ''.title'' ''text'' VNil]
           (Some sample_paginator) None (Some False))
     = Panic NilPointerDereference"
  by (simp add: sample_defs NewScraper_defs)

theorem NewScraper_validation_witness:
  "build_parts sample_env ([], [])
     (Fields (sample_payload
        [sample_field ''title'' ''.title'' ''link'' VNil, sample_field ''price'' ''.price'' ''text'' VNil]
        (Some sample_paginator) (Some True) (Some False)))
     = Return ([Part ''title_text'' ''.title'' (Some extract_Text) None,
                Part ''title_link'' ''.title'' (Some (extract_Attr ''href'')) None,
                Part ''price'' ''.price'' (Some extract_Text) None :: nat Part],
               [''.title'', ''.price''])
   \<and> (\<exists>s. NewScraper sample_env
          (sample_payload
            [sample_field ''title'' ''.title'' ''link'' VNil, sample_field ''price'' ''.price'' ''text'' VNil]
            (Some sample_paginator) (Some True) (Some False)) = Return s
        \<and> Parts s = [Part ''title_text'' ''.title'' (Some extract_Text) None,
                Part ''title_link'' ''.title'' (Some (extract_Attr ''href'')) None,
                Part ''price'' ''.price'' (Some extract_Text) None])
   \<and> build_parts sample_env ([], [])
        (Fields (sample_payload
           [sample_field ''a'' ''.x'' ''text'' VNil, sample_field ''a'' [] ''text'' VNil]
           None None None))
     = Return ([Part ''a'' ''.x'' (Some extract_Text) None,
                Part ''a'' [] (Some extract_Text) None :: nat Part], [''.x'', []])
   \<and> NewScraper sample_env
        (sample_payload
           [sample_field ''a'' ''.x'' ''text'' VNil, sample_field ''a'' [] ''text'' VNil]
           None None None)
     = Error (ErrDuplicateName 1)"
proof -
  let ?p = "sample_payload
        [sample_field ''title'' ''.title'' ''link'' VNil, sample_field ''price'' ''.price'' ''text'' VNil]
        (Some sample_paginator) (Some True) (Some False)"
  let ?parts = "[Part ''title_text'' ''.title'' (Some extract_Text) None,
                Part ''title_link'' ''.title'' (Some (extract_Attr ''href'')) None,
                Part ''price'' ''.price'' (Some extract_Text) None :: nat Part]"
  have b: "build_parts sample_env ([], []) (Fields ?p) = Return (?parts, [''.title'', ''.price''])"
    by (simp add: sample_defs NewScraper_defs)
  have v: "?parts \<noteq> [] \<and> (\<forall>part \<in> set ?parts. Part.Name part \<noteq> [] \<and> Part.Selector part \<noteq> [])
        \<and> distinct (map Part.Name ?parts) \<and> Payload.Paginator ?p \<noteq> None
        \<and> Payload.PaginateResults ?p \<noteq> None \<and> Payload.RandomizeFetchDelay ?p \<noteq> None"
    by (simp add: sample_payload_def)
  note S = NewScraper_validation[OF b, THEN conjunct2, THEN conjunct2, THEN conjunct2,
    THEN conjunct2, THEN conjunct2, THEN conjunct2, THEN conjunct2]
  from S v have ok: "\<exists>s. NewScraper sample_env ?p = Return s \<and> Parts s = ?parts"
    by (rule mp)
  let ?q = "sample_payload
           [sample_field ''a'' ''.x'' ''text'' VNil, sample_field ''a'' [] ''text'' VNil]
           None None None"
  let ?bad = "[Part ''a'' ''.x'' (Some extract_Text) None,
                Part ''a'' [] (Some extract_Text) None :: nat Part]"
  have b': "build_parts sample_env ([], []) (Fields ?q) = Return (?bad, [''.x'', []])"
    by (simp add: sample_defs NewScraper_defs)
  have k: "(1::nat) < length ?bad" by simp
  have pre: "(\<forall>part \<in> set (take 1 ?bad). Part.Name part \<noteq> [] \<and> Part.Selector part \<noteq> [])
          \<and> distinct (map Part.Name (take 1 ?bad))" by simp
  have dup: "Part.Name (?bad ! 1) \<noteq> [] \<and> (\<exists>j < 1. Part.Name (?bad ! j) = Part.Name (?bad ! 1))"
    by simp
  note K = NewScraper_validation[OF b', THEN conjunct2, THEN conjunct2, THEN conjunct1,
    rule_format, OF k pre, THEN conjunct2, THEN conjunct1]
  from K dup have bad: "NewScraper sample_env ?q = Error (ErrDuplicateName 1)"
    by (rule mp)
  from b ok b' bad show ?thesis by (intro conjI)
qed

section \<open>Link fields\<close>

text \<open>
  C5. A field of type \<open>link\<close> named X, whose Params is nil or a map, appends exactly
  two parts, named X_text and X_link, both with the field's selector, and one
  selector, whatever \<open>FillStruct\<close> does with the params. (When Params holds a
  value of another dynamic type, the type assertion of line 170 panics and no part is
  appended.)
\<close>

theorem link_field_two_Parts:
  assumes "Type (Field.Extractor f) = ''link''"
    and "Params (Field.Extractor f) = VNil \<or> (\<exists>m. Params (Field.Extractor f) = VMap m)"
  shows "\<exists>text href.
           add_field env (parts, selectors) f =
             Return (parts @ [Part (Field.Name f @ ''_text'') (Field.Selector f) (Some text) None,
                              Part (Field.Name f @ ''_link'') (Field.Selector f) (Some href) None],
                     selectors @ [Field.Selector f])"
  using assms by (auto simp: add_field_def field_params_def Let_def)

theorem link_field_two_Parts_witness:
  "Type (Field.Extractor (sample_field ''title'' ''.title'' ''link''
            (VMap (Some [(''attr'', VString ''data-url'')])))) = ''link''
   \<and> (\<exists>text href.
        add_field sample_env ([], [])
          (sample_field ''title'' ''.title'' ''link'' (VMap (Some [(''attr'', VString ''data-url'')])))
        = Return ([Part ''title_text'' ''.title'' (Some text) None,
                   Part ''title_link'' ''.title'' (Some href) (None :: nat Scraper option)],
                  [''.title'']))"
proof -
  let ?f = "sample_field ''title'' ''.title'' ''link'' (VMap (Some [(''attr'', VString ''data-url'')]))"
  have h1: "Type (Field.Extractor ?f) = ''link''" by (simp add: sample_field_def)
  have h2: "Params (Field.Extractor ?f) = VNil \<or> (\<exists>m. Params (Field.Extractor ?f) = VMap m)"
    by (simp add: sample_field_def)
  have n: "Field.Name ?f = ''title''" "Field.Selector ?f = ''.title''"
    by (simp_all add: sample_field_def)
  from link_field_two_Parts[OF h1 h2, of sample_env "[] :: nat Part list" "[]"] h1 n
  show ?thesis by simp
qed

theorem link_field_Params_not_a_map:
  "add_field sample_env ([] :: nat Part list, [])
     (sample_field ''title'' ''.title'' ''link'' (VString ''oops''))
     = Panic TypeAssertionFailed
   \<and> NewScraper sample_env
        (sample_payload [sample_field ''title'' ''.title'' ''link'' (VString ''oops'')]
           (Some sample_paginator) (Some True) (Some False))
     = Panic TypeAssertionFailed"
  by (simp add: sample_defs NewScraper_defs)

section \<open>The page divider\<close>

text \<open>
  C9. When \<open>NewScraper\<close> returns a scraper, the payload has at least one field, the
  collected selectors are the fields' selectors in order (one for each field, so not
  empty), and \<open>DividePage\<close> is the divider by intersection over them, never the
  divider by the selector \<open>body\<close>.
\<close>

theorem NewScraper_DividePageByIntersection:
  assumes "NewScraper env p = Return s"
  shows "Fields p \<noteq> [] \<and> map Field.Selector (Fields p) \<noteq> []
         \<and> DividePage s = DividePageByIntersection (map Field.Selector (Fields p))
         \<and> DividePage s \<noteq> DividePageBySelector ''body''"
proof -
  from NewScraper_Return[OF assms] obtain parts selectors
    where b: "build_parts env ([], []) (Fields p) = Return (parts, selectors)"
      and n: "parts \<noteq> []" and m: "make_scraper p parts selectors = Return s"
    by blast
  from build_parts_Return[OF b] n have s: "selectors = map Field.Selector (Fields p)"
    and f: "Fields p \<noteq> []" by auto
  from make_scraper_Return[OF m] s f show ?thesis by auto
qed

theorem NewScraper_DividePageByIntersection_witness:
  "(\<exists>s. NewScraper sample_env
          (sample_payload
            [sample_field ''title'' ''.title'' ''link'' VNil, sample_field ''price'' ''.price'' ''text'' VNil]
            (Some sample_paginator) (Some True) (Some False)) = Return s
        \<and> DividePage s = DividePageByIntersection [''.title'', ''.price''])"
proof -
  let ?p = "sample_payload
        [sample_field ''title'' ''.title'' ''link'' VNil, sample_field ''price'' ''.price'' ''text'' VNil]
        (Some sample_paginator) (Some True) (Some False)"
  obtain s where r: "NewScraper sample_env ?p = Return s"
    by (simp add: sample_defs NewScraper_defs)
  have "map Field.Selector (Fields ?p) = [''.title'', ''.price'']"
    by (simp add: sample_payload_def sample_field_def)
  with NewScraper_DividePageByIntersection[OF r] r show ?thesis by simp
qed

section \<open>The options of the scraper\<close>

text \<open>
  C10. \<open>NewScraper\<close> dereferences \<open>PaginateResults\<close> and \<open>RandomizeFetchDelay\<close>
  only after validation: when it returns a scraper both were present, and a payload
  whose parts pass validation but which lacks either ends in a nil pointer dereference.
  An error return comes before the dereference: with no part \<open>ErrNoParts\<close> is
  returned, and with parts that fail validation the error of the validation loop,
  whatever the two fields hold (the same error is returned when they are replaced).
\<close>

theorem NewScraper_dereferences:
  fixes p :: "('a, 'd) Payload" and parts :: "'d Part list"
  shows "(NewScraper env p = Return s \<longrightarrow>
            Payload.PaginateResults p \<noteq> None \<and> Payload.RandomizeFetchDelay p \<noteq> None)
         \<and> (build_parts env ([], []) (Fields p) = Return (parts, selectors) \<and> parts \<noteq> []
             \<and> validate {} 0 parts = None
             \<and> (Payload.PaginateResults p = None \<or> Payload.RandomizeFetchDelay p = None)
             \<longrightarrow> NewScraper env p = Panic NilPointerDereference)
         \<and> (build_parts env ([], []) (Fields p) = Return (parts, selectors) \<and> parts = []
             \<longrightarrow> NewScraper env p = Error ErrNoParts)
         \<and> (build_parts env ([], []) (Fields p) = Return (parts, selectors) \<and> parts \<noteq> []
             \<and> validate {} 0 parts = Some e
             \<longrightarrow> NewScraper env p = Error e)
         \<and> (NewScraper env p = Error e \<longrightarrow>
               NewScraper env
                 (p\<lparr>Payload.PaginateResults := x, Payload.RandomizeFetchDelay := y\<rparr>) = Error e)"
proof -
  have A: "NewScraper env p = Return s \<longrightarrow>
            Payload.PaginateResults p \<noteq> None \<and> Payload.RandomizeFetchDelay p \<noteq> None"
  proof
    assume "NewScraper env p = Return s"
    from NewScraper_Return[OF this] obtain parts' selectors'
      where "make_scraper p parts' selectors' = Return s" by blast
    from make_scraper_Return[OF this]
    show "Payload.PaginateResults p \<noteq> None \<and> Payload.RandomizeFetchDelay p \<noteq> None"
      by auto
  qed
  have B: "build_parts env ([], []) (Fields p) = Return (parts, selectors) \<and> parts \<noteq> []
             \<and> validate {} 0 parts = None
             \<and> (Payload.PaginateResults p = None \<or> Payload.RandomizeFetchDelay p = None)
             \<longrightarrow> NewScraper env p = Panic NilPointerDereference"
  proof
    assume h: "build_parts env ([], []) (Fields p) = Return (parts, selectors) \<and> parts \<noteq> []
             \<and> validate {} 0 parts = None
             \<and> (Payload.PaginateResults p = None \<or> Payload.RandomizeFetchDelay p = None)"
    then have b: "build_parts env ([], []) (Fields p) = Return (parts, selectors)" by simp
    from h have "make_scraper p parts selectors = Panic NilPointerDereference"
      by (simp add: make_scraper_nil)
    with h show "NewScraper env p = Panic NilPointerDereference"
      by (simp add: NewScraper_built[OF b])
  qed
  have C: "build_parts env ([], []) (Fields p) = Return (parts, selectors) \<and> parts = []
             \<longrightarrow> NewScraper env p = Error ErrNoParts"
  proof
    assume h: "build_parts env ([], []) (Fields p) = Return (parts, selectors) \<and> parts = []"
    then have b: "build_parts env ([], []) (Fields p) = Return (parts, selectors)" by simp
    from h show "NewScraper env p = Error ErrNoParts"
      by (simp add: NewScraper_built[OF b])
  qed
  have D: "build_parts env ([], []) (Fields p) = Return (parts, selectors) \<and> parts \<noteq> []
             \<and> validate {} 0 parts = Some e
             \<longrightarrow> NewScraper env p = Error e"
  proof
    assume h: "build_parts env ([], []) (Fields p) = Return (parts, selectors) \<and> parts \<noteq> []
             \<and> validate {} 0 parts = Some e"
    then have b: "build_parts env ([], []) (Fields p) = Return (parts, selectors)" by simp
    from h show "NewScraper env p = Error e"
      by (simp add: NewScraper_built[OF b])
  qed
  have E: "NewScraper env p = Error e \<longrightarrow>
               NewScraper env
                 (p\<lparr>Payload.PaginateResults := x, Payload.RandomizeFetchDelay := y\<rparr>) = Error e"
  proof
    let ?p' = "p\<lparr>Payload.PaginateResults := x, Payload.RandomizeFetchDelay := y\<rparr>"
    assume "NewScraper env p = Error e"
    from NewScraper_Error_cases[OF this] obtain ps :: "'d Part list" and sels
      where b: "build_parts env ([], []) (Fields p) = Return (ps, sels)"
        and c: "ps = [] \<and> e = ErrNoParts \<or> ps \<noteq> [] \<and> validate {} 0 ps = Some e"
      by blast
    from b have b': "build_parts env ([], []) (Fields ?p') = Return (ps, sels)" by simp
    from c show "NewScraper env ?p' = Error e"
      unfolding NewScraper_Error[OF b'] .
  qed
  show ?thesis
    by (intro conjI) (fact A, fact B, fact C, fact D, fact E)
qed

theorem NewScraper_error_with_nil_fields:
  "NewScraper sample_env (sample_payload [] (Some sample_paginator) None None) = Error ErrNoParts
   \<and> Payload.PaginateResults (sample_payload [] (Some sample_paginator) None None) = None
   \<and> Payload.RandomizeFetchDelay (sample_payload [] (Some sample_paginator) None None) = None"
  by (simp add: sample_defs NewScraper_defs)

theorem NewScraper_dereferences_witness:
  "build_parts sample_env ([], [])
     (Fields (sample_payload [sample_field ''title'' ''.title'' ''attr'' VNil]
        (Some sample_paginator) (Some True) None))
     = Return ([Part ''title'' ''.title'' (Some (extract_Attr [])) None :: nat Part], [''.title''])
   \<and> Payload.RandomizeFetchDelay
        (sample_payload [sample_field ''title'' ''.title'' ''attr'' VNil]
           (Some sample_paginator) (Some True) None) = None
   \<and> NewScraper sample_env
        (sample_payload [sample_field ''title'' ''.title'' ''attr'' VNil]
           (Some sample_paginator) (Some True) None)
     = Panic NilPointerDereference
   \<and> validate {} 0 [Part [] ''.title'' (Some extract_Text) None :: nat Part] = Some (ErrNoName 0)
   \<and> Payload.PaginateResults
        (sample_payload [sample_field [] ''.title'' ''text'' VNil]
           (Some sample_paginator) None None) = None
   \<and> NewScraper sample_env
        (sample_payload [sample_field [] ''.title'' ''text'' VNil]
           (Some sample_paginator) None None)
     = Error (ErrNoName 0)"
proof -
  let ?p = "sample_payload [sample_field ''title'' ''.title'' ''attr'' VNil]
              (Some sample_paginator) (Some True) None"
  let ?parts = "[Part ''title'' ''.title'' (Some (extract_Attr [])) None :: nat Part]"
  have b: "build_parts sample_env ([], []) (Fields ?p) = Return (?parts, [''.title''])"
    by (simp add: sample_defs NewScraper_defs)
  have n: "Payload.RandomizeFetchDelay ?p = None" by (simp add: sample_payload_def)
  have h: "build_parts sample_env ([], []) (Fields ?p) = Return (?parts, [''.title''])
             \<and> ?parts \<noteq> [] \<and> validate {} 0 ?parts = None
             \<and> (Payload.PaginateResults ?p = None \<or> Payload.RandomizeFetchDelay ?p = None)"
    using b n by simp
  note B = NewScraper_dereferences[where env = sample_env and p = ?p and parts = ?parts
    and selectors = "[''.title'']", THEN conjunct2, THEN conjunct1]
  from B h have r1: "NewScraper sample_env ?p = Panic NilPointerDereference"
    by (rule mp)
  let ?q = "sample_payload [sample_field [] ''.title'' ''text'' VNil]
              (Some sample_paginator) None None"
  let ?bad = "[Part [] ''.title'' (Some extract_Text) None :: nat Part]"
  have b': "build_parts sample_env ([], []) (Fields ?q) = Return (?bad, [''.title''])"
    by (simp add: sample_defs NewScraper_defs)
  have v': "validate {} 0 ?bad = Some (ErrNoName 0)" by simp
  have n': "Payload.PaginateResults ?q = None" by (simp add: sample_payload_def)
  have h': "build_parts sample_env ([], []) (Fields ?q) = Return (?bad, [''.title''])
             \<and> ?bad \<noteq> [] \<and> validate {} 0 ?bad = Some (ErrNoName 0)"
    using b' by simp
  note D = NewScraper_dereferences[where env = sample_env and p = ?q and parts = ?bad
    and selectors = "[''.title'']" and e = "ErrNoName 0",
    THEN conjunct2, THEN conjunct2, THEN conjunct2, THEN conjunct1]
  from D h' have r2: "NewScraper sample_env ?q = Error (ErrNoName 0)"
    by (rule mp)
  from b n r1 v' n' r2 show ?thesis by (intro conjI)
qed

section \<open>Tasks and their identifiers\<close>

lemma sample_id_String: "ksuid_String sample_ksuid sample_id = ''0ujtsYcgvSTl8PAuAdqWYSMnLOv''"
  by (simp add: sample_ksuid_def sample_id_def base62_encode.simps base62_alphabet_def)

lemma sample_id_Parse: "ksuid_Parse sample_ksuid ''0ujtsYcgvSTl8PAuAdqWYSMnLOv'' = Return sample_id"
  by (simp add: sample_ksuid_def sample_id_def sample_Parse_def base62_alphabet_def)

lemma sample_id_Time: "ksuid_Time sample_ksuid sample_id = 1507608047"
  by (simp add: sample_ksuid_def sample_id_def sample_Time_def)

lemma NewTask_Return:
  assumes "NewTask lib env new_id p = Return t"
  shows "\<exists>scraper. NewScraper env p = Return scraper \<and>
           t = \<lparr>ID = ksuid_String lib new_id, Task.Scraper = Some scraper,
                Session = \<lparr>Robots = None, Cookies = []\<rparr>, Status = [],
                Task.Results = \<lparr>Visited = None, Results.Results = None\<rparr>\<rparr>"
  using assms by (cases "NewScraper env p") (auto simp: NewTask_def)

lemma sample_NewScraper:
  "NewScraper sample_env
     (sample_payload [sample_field ''title'' ''.title'' ''text'' VNil]
        (Some sample_paginator) (Some True) (Some False))
   = Return (Scraper.Scraper (BySelector ''.next'' ''href'') (DividePageByIntersection [''.title''])
       [Part ''title'' ''.title'' (Some extract_Text) None]
       \<lparr>ScrapeOptions.MaxPages = 2, Format = ''json'', PaginateResults = True,
        FetchDelay = 500, RandomizeFetchDelay = False, RetryTimes = 3\<rparr>)"
  by (simp add: sample_defs NewScraper_defs)

lemma sample_NewTask:
  "NewTask sample_ksuid sample_env sample_id
     (sample_payload [sample_field ''title'' ''.title'' ''text'' VNil]
        (Some sample_paginator) (Some True) (Some False))
   = Return \<lparr>ID = ''0ujtsYcgvSTl8PAuAdqWYSMnLOv'',
       Task.Scraper = Some (Scraper.Scraper (BySelector ''.next'' ''href'')
         (DividePageByIntersection [''.title''])
         [Part ''title'' ''.title'' (Some extract_Text) None]
         \<lparr>ScrapeOptions.MaxPages = 2, Format = ''json'', PaginateResults = True,
          FetchDelay = 500, RandomizeFetchDelay = False, RetryTimes = 3\<rparr>),
       Session = \<lparr>Robots = None, Cookies = []\<rparr>, Status = [],
       Task.Results = \<lparr>Visited = None, Results.Results = None\<rparr>\<rparr>"
  by (simp add: NewTask_def sample_NewScraper sample_id_String)



text \<open>
  C8. For a task returned by \<open>NewTask\<close>, \<open>StartTime\<close> returns no error and gives the
  time of the identifier that \<open>NewTask\<close> drew, provided \<open>ksuid.Parse\<close> gives that
  identifier back from its text; \<open>StartTime\<close> reads nothing of the task but its ID.
\<close>

theorem StartTime_NewTask:
  assumes "ksuid_Parse lib (ksuid_String lib new_id) = Return new_id"
    and "NewTask lib env new_id p = Return t"
  shows "StartTime lib t = Return (ksuid_Time lib new_id)
         \<and> (\<forall>t'. ID t' = ID t \<longrightarrow> StartTime lib t' = StartTime lib t)"
  using NewTask_Return[OF assms(2)] assms(1) by (auto simp: StartTime_def)

theorem StartTime_NewTask_witness:
  "ksuid_Parse sample_ksuid (ksuid_String sample_ksuid sample_id) = Return sample_id
   \<and> (\<exists>t :: (unit, nat) Task.
        NewTask sample_ksuid sample_env sample_id
          (sample_payload [sample_field ''title'' ''.title'' ''text'' VNil]
             (Some sample_paginator) (Some True) (Some False)) = Return t
        \<and> StartTime sample_ksuid t = Return 1507608047)"
proof -
  have h: "ksuid_Parse sample_ksuid (ksuid_String sample_ksuid sample_id) = Return sample_id"
    by (simp add: sample_id_String sample_id_Parse)
  from StartTime_NewTask[OF h sample_NewTask] h sample_NewTask sample_id_Time
  show ?thesis by auto
qed

end
